theory Spec2Isabelle
  imports Main
begin

section \<open>Storage Scraper: the scrape-and-extract pipeline\<close>

text \<open>
  A shallow embedding of \<^verbatim>\<open>storage_scraper/models.py\<close>, \<^verbatim>\<open>ollama_client.py\<close> and
  \<^verbatim>\<open>scraper.py\<close>. A Python \<^verbatim>\<open>str\<close> is a \<open>string\<close>; one \<open>char\<close> stands for one code
  point, so \<open>length\<close> is Python's \<^verbatim>\<open>len\<close> on text in the 8-bit range. An exception is a
  value of type \<open>exn\<close>; only subclasses of \<^verbatim>\<open>Exception\<close> are modelled (cancellation and
  keyboard interrupts are not).
\<close>

subsection \<open>Data model (models.py)\<close>

record StorageUnit =
  url :: string
  size :: string
  price :: string
  raw_size :: "string option"
  raw_price :: "string option"

record ScrapingResult =
  url :: string
  success :: bool
  units :: "StorageUnit list"
  error :: "string option"

datatype exn =
    RuntimeError string
  | TypeError string
  | AttributeError string
  | LibraryError string

fun str_exn :: "exn \<Rightarrow> string" where
  "str_exn (RuntimeError m) = m"
| "str_exn (TypeError m) = m"
| "str_exn (AttributeError m) = m"
| "str_exn (LibraryError m) = m"

subsection \<open>Python values and string built-ins\<close>

text \<open>
  The values \<^verbatim>\<open>json.loads\<close> and \<^verbatim>\<open>response.json()\<close> return. A \<^verbatim>\<open>dict\<close> is an association
  list read with \<open>map_of\<close>; a float carries its text only, no claim computes with it.
\<close>

datatype pyval =
    PNone
  | PBool bool
  | PInt int
  | PFloat string
  | PStr string
  | PList "pyval list"
  | PDict "(string \<times> pyval) list"

text \<open>\<^verbatim>\<open>str.isspace\<close> on the code points below 256: what \<^verbatim>\<open>str.strip()\<close> removes.\<close>

definition is_space :: "char \<Rightarrow> bool" where
  "is_space c = (c \<in> set [CHR 0x09, CHR 0x0A, CHR 0x0B, CHR 0x0C, CHR 0x0D, CHR 0x1C, CHR 0x1D,
     CHR 0x1E, CHR 0x1F, CHR 0x20, CHR 0x85, CHR 0xA0])"

definition strip :: "string \<Rightarrow> string" where
  "strip s = rev (dropWhile is_space (rev (dropWhile is_space s)))"

text \<open>The line boundaries of \<^verbatim>\<open>str.splitlines()\<close> below 256; \<^verbatim>\<open>\r\n\<close> is one boundary.\<close>

definition is_linebreak :: "char \<Rightarrow> bool" where
  "is_linebreak c = (c \<in> set [CHR 0x0A, CHR 0x0B, CHR 0x0C, CHR 0x0D, CHR 0x1C, CHR 0x1D,
     CHR 0x1E, CHR 0x85])"

fun splitlines_from :: "string \<Rightarrow> string \<Rightarrow> string list" where
  "splitlines_from line [] = (if line = [] then [] else [rev line])"
| "splitlines_from line (c # cs) =
     (if is_linebreak c
      then rev line # splitlines_from []
             (if c = CHR 0x0D \<and> cs \<noteq> [] \<and> hd cs = CHR 0x0A then tl cs else cs)
      else splitlines_from (c # line) cs)"

definition splitlines :: "string \<Rightarrow> string list" where
  "splitlines s = splitlines_from [] s"

text \<open>\<^verbatim>\<open>line.split("  ")\<close>: cut at each pair of spaces, left to right.\<close>

fun split_from :: "string \<Rightarrow> string \<Rightarrow> string list" where
  "split_from part (c # d # cs) =
     (if c = CHR 0x20 \<and> d = CHR 0x20 then rev part # split_from [] cs
      else split_from (c # part) (d # cs))"
| "split_from part [c] = [rev (c # part)]"
| "split_from part [] = [rev part]"

definition split_double_space :: "string \<Rightarrow> string list" where
  "split_double_space s = split_from [] s"

text \<open>\<^verbatim>\<open>' '.join(parts)\<close>.\<close>

fun join_space :: "string list \<Rightarrow> string" where
  "join_space [] = []"
| "join_space [p] = p"
| "join_space (p # q # ps) = p @ CHR 0x20 # join_space (q # ps)"

text \<open>\<^verbatim>\<open>s[:k]\<close> for a Python int \<open>k\<close>: a negative \<open>k\<close> counts from the end.\<close>

definition slice_to :: "string \<Rightarrow> int \<Rightarrow> string" where
  "slice_to s k = (if 0 \<le> k then take (nat k) s else take (length s - nat (- k)) s)"

text \<open>Decimal text of an int, as an f-string renders \<^verbatim>\<open>response.status\<close>.\<close>

function str_nat :: "nat \<Rightarrow> string" where
  "str_nat n = (if n < 10 then [''0123456789'' ! n]
                else str_nat (n div 10) @ [''0123456789'' ! (n mod 10)])"
  by pat_completeness auto
termination
  by (relation "measure id") auto

definition str_int :: "int \<Rightarrow> string" where
  "str_int i = (if i < 0 then CHR ''-'' # str_nat (nat (- i)) else str_nat (nat i))"

subsection \<open>Library code the client calls\<close>

text \<open>
  The functions of the Python libraries that the source calls and this repository does not
  define are parameters of the model:
  \<^item> \<open>json_loads\<close>: \<^verbatim>\<open>json.loads\<close>; \<open>None\<close> is \<^verbatim>\<open>JSONDecodeError\<close>;
  \<^item> \<open>py_repr\<close>: \<^verbatim>\<open>str(v)\<close> for a value \<open>v\<close> that is not a \<^verbatim>\<open>str\<close>;
  \<^item> \<open>soup_get_text\<close>: \<^verbatim>\<open>BeautifulSoup(html, 'html.parser')\<close>, the removal of the
    script, style, meta and link elements and \<^verbatim>\<open>get_text()\<close>, or the exception raised;
  \<^item> \<open>prompt_head\<close>: the fixed text of the prompt template up to the page's URL (it holds
    currency signs beyond the 8-bit range);
  \<^item> \<open>timeout_is_exception\<close>: whether \<^verbatim>\<open>aiohttp.ClientTimeout\<close>, which an \<^verbatim>\<open>except\<close>
    clause of \<^verbatim>\<open>_call_ollama\<close> names, is an exception class. In aiohttp it is a settings
    class, and Python raises \<^verbatim>\<open>TypeError\<close> when an \<^verbatim>\<open>except\<close> clause that names such a
    class is tried.
\<close>

record env =
  json_loads :: "string \<Rightarrow> pyval option"
  py_repr :: "pyval \<Rightarrow> string"
  soup_get_text :: "string \<Rightarrow> exn + string"
  prompt_head :: string
  timeout_is_exception :: bool

definition py_str :: "env \<Rightarrow> pyval \<Rightarrow> string" where
  "py_str e v = (case v of PStr s \<Rightarrow> s | _ \<Rightarrow> py_repr e v)"

subsection \<open>Response parsing (ollama\_client.py)\<close>

text \<open>
  \<^verbatim>\<open>re.search(r'\[.*\]', response, re.DOTALL)\<close> followed by \<^verbatim>\<open>group()\<close>: the search starts at
  the first \<^verbatim>\<open>[\<close>, the greedy \<^verbatim>\<open>.*\<close> runs to the end and backs up to the last \<^verbatim>\<open>]\<close>. A
  later \<^verbatim>\<open>[\<close> can only match when the first one does.
\<close>

definition json_match :: "string \<Rightarrow> string option" where
  "json_match response =
     (case dropWhile (\<lambda>c. c \<noteq> CHR ''['') response of
        [] \<Rightarrow> None
      | _ # rest \<Rightarrow>
          (case rev (dropWhile (\<lambda>c. c \<noteq> CHR '']'') (rev rest)) of
             [] \<Rightarrow> None
           | inner \<Rightarrow> Some (CHR ''['' # inner)))"

definition json_str :: "string \<Rightarrow> string" where
  "json_str response = (case json_match response of Some m \<Rightarrow> m | None \<Rightarrow> strip response)"

text \<open>
  The body of the \<^verbatim>\<open>for item in data\<close> loop: \<open>Some\<close> the unit appended, \<open>None\<close> when the
  item is skipped with a warning.
\<close>

definition make_unit :: "env \<Rightarrow> string \<Rightarrow> pyval \<Rightarrow> StorageUnit option" where
  "make_unit e page_url item =
     (case item of
        PDict kv \<Rightarrow>
          (case (map_of kv ''size'', map_of kv ''price'') of
             (Some sz, Some pr) \<Rightarrow>
               Some \<lparr>StorageUnit.url = page_url,
                     size = strip (py_str e sz),
                     price = strip (py_str e pr),
                     raw_size = Some (py_str e (case map_of kv ''raw_size'' of
                                                  Some v \<Rightarrow> v | None \<Rightarrow> sz)),
                     raw_price = Some (py_str e (case map_of kv ''raw_price'' of
                                                   Some v \<Rightarrow> v | None \<Rightarrow> pr))\<rparr>
           | _ \<Rightarrow> None)
      | _ \<Rightarrow> None)"

fun collect_units :: "env \<Rightarrow> string \<Rightarrow> pyval list \<Rightarrow> StorageUnit list \<Rightarrow> StorageUnit list" where
  "collect_units e page_url [] us = us"
| "collect_units e page_url (item # data) us =
     (case make_unit e page_url item of
        Some unit \<Rightarrow> collect_units e page_url data (us @ [unit])
      | None \<Rightarrow> collect_units e page_url data us)"

definition parse_ollama_response :: "env \<Rightarrow> string \<Rightarrow> string \<Rightarrow> StorageUnit list" where
  "parse_ollama_response e response page_url =
     (case json_loads e (json_str response) of
        None \<Rightarrow> []
      | Some data \<Rightarrow>
          (case data of
             PList items \<Rightarrow> collect_units e page_url items []
           | _ \<Rightarrow> []))"

subsection \<open>Preprocessing and prompt (ollama\_client.py)\<close>

text \<open>
  \<^verbatim>\<open>_clean_html_for_llm\<close>. The lines of the page's text are stripped, cut at double spaces,
  the pieces stripped again and the non-empty ones joined by single spaces. Any exception
  of the \<^verbatim>\<open>try\<close> block leads to the fallback, a slice of the raw HTML.
\<close>

definition clean_whitespace :: "string \<Rightarrow> string" where
  "clean_whitespace text =
     (let lines = map strip (splitlines text);
          chunks = map strip (concat (map split_double_space lines))
      in join_space (filter (\<lambda>chunk. chunk \<noteq> []) chunks))"

definition clean_html_for_llm :: "env \<Rightarrow> string \<Rightarrow> int \<Rightarrow> string" where
  "clean_html_for_llm e html_content max_chars =
     (case soup_get_text e html_content of
        Inl ex \<Rightarrow> slice_to html_content max_chars
      | Inr text \<Rightarrow>
          (let text' = clean_whitespace text
           in if int (length text') > max_chars then slice_to text' max_chars @ ''...''
              else text'))"

text \<open>
  \<^verbatim>\<open>_create_extraction_prompt\<close> calls the cleaning with the default budget of 8000 and
  ends the prompt with the URL, a colon, and the cleaned text between two newlines.
\<close>

definition create_extraction_prompt :: "env \<Rightarrow> string \<Rightarrow> string \<Rightarrow> string" where
  "create_extraction_prompt e html_content page_url =
     (let cleaned_html = clean_html_for_llm e html_content 8000
      in prompt_head e @ page_url @ [CHR '':'', CHR 0x0A] @ cleaned_html @ [CHR 0x0A])"

subsection \<open>What the outside world does during one pipeline\<close>

text \<open>
  The browser and the generation endpoint are collaborators. A \<open>page_script\<close> fixes, for
  the pipeline of one input position, what each awaited call does: \<open>Some ex\<close> or \<open>Inl ex\<close>
  is the exception the call raises. \<open>goto\<close> returns no response (\<open>None\<close>) or the status
  of the response. \<open>post\<close> answers the prompt sent to \<^verbatim>\<open>/api/generate\<close> with the
  response's status and the outcome of \<^verbatim>\<open>response.json()\<close>. \<^verbatim>\<open>page.close()\<close> releases the
  page and is taken not to fail.
\<close>

record http_response =
  status :: int
  json_body :: "exn + pyval"

record page_script =
  new_page :: "exn option"
  set_extra_http_headers :: "exn option"
  goto :: "exn + int option"
  wait_for_timeout :: "exn option"
  content :: "exn + string"
  post :: "string \<Rightarrow> exn + http_response"

text \<open>
  The state a run changes: the browser handle of the scraper (\<open>None\<close> before
  \<^verbatim>\<open>__aenter__\<close>) with the pages that are open, and the prompts posted to the endpoint.
\<close>

record Browser =
  open_pages :: "nat list"
  next_page :: nat

record state =
  browser :: "Browser option"
  prompts_sent :: "string list"

definition StorageScraper_init :: state where
  "StorageScraper_init = \<lparr>browser = None, prompts_sent = []\<rparr>"

definition aenter :: "state \<Rightarrow> state" where
  "aenter st = st\<lparr>browser := Some \<lparr>open_pages = [], next_page = 0\<rparr>\<rparr>"

definition open_page :: "Browser \<Rightarrow> state \<Rightarrow> state" where
  "open_page b st =
     st\<lparr>browser := Some (b\<lparr>open_pages := open_pages b @ [next_page b],
                            next_page := Suc (next_page b)\<rparr>)\<rparr>"

definition page_close :: "nat \<Rightarrow> state \<Rightarrow> state" where
  "page_close page st =
     st\<lparr>browser := map_option (\<lambda>b. b\<lparr>open_pages := removeAll page (open_pages b)\<rparr>)
                                (browser st)\<rparr>"

definition pages_open :: "state \<Rightarrow> nat list" where
  "pages_open st = (case browser st of None \<Rightarrow> [] | Some b \<Rightarrow> open_pages b)"

subsection \<open>Model invocation (ollama\_client.py)\<close>

fun type_name :: "pyval \<Rightarrow> string" where
  "type_name PNone = ''NoneType''"
| "type_name (PBool b) = ''bool''"
| "type_name (PInt i) = ''int''"
| "type_name (PFloat f) = ''float''"
| "type_name (PStr s) = ''str''"
| "type_name (PList xs) = ''list''"
| "type_name (PDict kv) = ''dict''"

definition no_attribute :: "string \<Rightarrow> string \<Rightarrow> exn" where
  "no_attribute ty attr =
     AttributeError ([CHR 0x27] @ ty @ [CHR 0x27] @ '' object has no attribute '' @
                     [CHR 0x27] @ attr @ [CHR 0x27])"

text \<open>
  The \<^verbatim>\<open>try\<close> block of \<^verbatim>\<open>_call_ollama\<close>: a status other than 200 gives \<^verbatim>\<open>None\<close>;
  \<^verbatim>\<open>data.get\<close> needs a \<^verbatim>\<open>dict\<close> and \<^verbatim>\<open>.strip()\<close> a \<^verbatim>\<open>str\<close>, else \<^verbatim>\<open>AttributeError\<close>.
\<close>

definition call_ollama_try :: "page_script \<Rightarrow> string \<Rightarrow> exn + string option" where
  "call_ollama_try ps prompt =
     (case post ps prompt of
        Inl ex \<Rightarrow> Inl ex
      | Inr response \<Rightarrow>
          if status response = 200 then
            (case json_body response of
               Inl ex \<Rightarrow> Inl ex
             | Inr data \<Rightarrow>
                 (case data of
                    PDict kv \<Rightarrow>
                      (case (case map_of kv ''response'' of Some v \<Rightarrow> v | None \<Rightarrow> PStr []) of
                         PStr s \<Rightarrow> Inr (Some (strip s))
                       | v \<Rightarrow> Inl (no_attribute (type_name v) ''strip''))
                  | _ \<Rightarrow> Inl (no_attribute (type_name data) ''get'')))
          else Inr None)"

text \<open>
  The \<^verbatim>\<open>except\<close> clauses: both return \<^verbatim>\<open>None\<close>; the first one names
  \<^verbatim>\<open>aiohttp.ClientTimeout\<close> and raises \<^verbatim>\<open>TypeError\<close> instead when that is no exception
  class. Every call is recorded in \<open>prompts_sent\<close>.
\<close>

definition call_ollama :: "env \<Rightarrow> page_script \<Rightarrow> string \<Rightarrow> state \<Rightarrow> (exn + string option) \<times> state" where
  "call_ollama e ps prompt st =
     (let st' = st\<lparr>prompts_sent := prompts_sent st @ [prompt]\<rparr>
      in case call_ollama_try ps prompt of
           Inl ex \<Rightarrow>
             if timeout_is_exception e then (Inr None, st')
             else (Inl (TypeError
               ''catching classes that do not inherit from BaseException is not allowed''), st')
         | Inr r \<Rightarrow> (Inr r, st'))"

text \<open>
  \<^verbatim>\<open>extract_storage_data\<close>: \<^verbatim>\<open>if response:\<close> holds for a non-empty string; an exception
  of the call is logged and gives the empty list.
\<close>

definition extract_storage_data :: "env \<Rightarrow> page_script \<Rightarrow> string \<Rightarrow> string \<Rightarrow> state \<Rightarrow> StorageUnit list \<times> state" where
  "extract_storage_data e ps html_content page_url st =
     (let prompt = create_extraction_prompt e html_content page_url
      in case call_ollama e ps prompt st of
           (Inl ex, st') \<Rightarrow> ([], st')
         | (Inr response, st') \<Rightarrow>
             (case response of
                None \<Rightarrow> ([], st')
              | Some r \<Rightarrow>
                  if r \<noteq> [] then (parse_ollama_response e r page_url, st') else ([], st')))"

subsection \<open>The per-URL pipeline (scraper.py)\<close>

definition failed :: "string \<Rightarrow> string \<Rightarrow> ScrapingResult" where
  "failed page_url error_msg =
     \<lparr>ScrapingResult.url = page_url, success = False, units = [], error = Some error_msg\<rparr>"

definition succeeded :: "string \<Rightarrow> StorageUnit list \<Rightarrow> ScrapingResult" where
  "succeeded page_url us =
     \<lparr>ScrapingResult.url = page_url, success = True, units = us, error = None\<rparr>"

text \<open>
  The \<^verbatim>\<open>try\<close> block of \<^verbatim>\<open>_scrape_url\<close>: \<open>Inl\<close> is an exception on its way to the handler,
  with the state at the moment it was raised.
\<close>

definition scrape_url_try :: "env \<Rightarrow> page_script \<Rightarrow> string \<Rightarrow> state \<Rightarrow> (exn + ScrapingResult) \<times> state" where
  "scrape_url_try e ps page_url st =
     (case browser st of
        None \<Rightarrow> (Inl (no_attribute ''NoneType'' ''new_page''), st)
      | Some b \<Rightarrow>
     (case new_page ps of
        Some ex \<Rightarrow> (Inl ex, st)
      | None \<Rightarrow>
     (let page = next_page b; st1 = open_page b st in
     (case set_extra_http_headers ps of
        Some ex \<Rightarrow> (Inl ex, st1)
      | None \<Rightarrow>
     (case goto ps of
        Inl ex \<Rightarrow> (Inl ex, st1)
      | Inr None \<Rightarrow>
          (Inr (failed page_url ''Failed to load page: HTTP No response''), page_close page st1)
      | Inr (Some response_status) \<Rightarrow>
          if response_status \<ge> 400 then
            (Inr (failed page_url (''Failed to load page: HTTP '' @ str_int response_status)),
             page_close page st1)
          else
     (case wait_for_timeout ps of
        Some ex \<Rightarrow> (Inl ex, st1)
      | None \<Rightarrow>
     (case content ps of
        Inl ex \<Rightarrow> (Inl ex, st1)
      | Inr html_content \<Rightarrow>
          (let st2 = page_close page st1 in
           (case extract_storage_data e ps html_content page_url st2 of
              (us, st3) \<Rightarrow>
                if us \<noteq> [] then (Inr (succeeded page_url us), st3)
                else (Inr (succeeded page_url []), st3))))))))))"

text \<open>The handler \<^verbatim>\<open>except Exception as e\<close> turns the exception into a failed result.\<close>

definition scrape_url :: "env \<Rightarrow> page_script \<Rightarrow> string \<Rightarrow> state \<Rightarrow> ScrapingResult \<times> state" where
  "scrape_url e ps page_url st =
     (case scrape_url_try e ps page_url st of
        (Inl ex, st') \<Rightarrow> (failed page_url (''Scraping error: '' @ str_exn ex), st')
      | (Inr result, st') \<Rightarrow> (result, st'))"

text \<open>\<^verbatim>\<open>_scrape_single_url\<close> holds the semaphore around the pipeline and returns its result.\<close>

definition scrape_single_url :: "env \<Rightarrow> page_script \<Rightarrow> string \<Rightarrow> state \<Rightarrow> (exn + ScrapingResult) \<times> state" where
  "scrape_single_url e ps page_url st =
     (case scrape_url e ps page_url st of (result, st') \<Rightarrow> (Inr result, st'))"

subsection \<open>The orchestrator (scraper.py)\<close>

text \<open>
  \<^verbatim>\<open>asyncio.gather(*tasks, return_exceptions=True)\<close>. The tasks are made in input order, one
  per position; the event loop decides in which order they complete. The \<open>schedule\<close> is
  that order, a list of positions. A pipeline shares with the others only the browser,
  where it touches its own page alone, so each one runs here in one piece. The result of
  the task at position \<open>i\<close> goes to slot \<open>i\<close>; \<^verbatim>\<open>gather\<close> returns when every slot is
  filled, and \<open>None\<close> says that it never does.
\<close>

fun run_tasks :: "env \<Rightarrow> (nat \<Rightarrow> page_script) \<Rightarrow> string list \<Rightarrow> nat list \<Rightarrow>
    (exn + ScrapingResult) option list \<Rightarrow> state \<Rightarrow> (exn + ScrapingResult) option list \<times> state" where
  "run_tasks e scripts urls [] slots st = (slots, st)"
| "run_tasks e scripts urls (i # schedule) slots st =
     (if i < length urls then
        (case scrape_single_url e (scripts i) (urls ! i) st of
           (r, st') \<Rightarrow> run_tasks e scripts urls schedule (slots[i := Some r]) st')
      else run_tasks e scripts urls schedule slots st)"

definition gather :: "env \<Rightarrow> (nat \<Rightarrow> page_script) \<Rightarrow> string list \<Rightarrow> nat list \<Rightarrow> state \<Rightarrow>
    ((exn + ScrapingResult) list \<times> state) option" where
  "gather e scripts urls schedule st =
     (case run_tasks e scripts urls schedule (replicate (length urls) None) st of
        (slots, st') \<Rightarrow>
          if list_all (\<lambda>slot. slot \<noteq> None) slots then Some (map the slots, st') else None)"

text \<open>
  The loop over \<^verbatim>\<open>enumerate(results)\<close>; \<open>results\<close> is as long as \<open>urls\<close>, so \<^verbatim>\<open>urls[i]\<close>
  is in range.
\<close>

fun handle_results :: "string list \<Rightarrow> nat \<Rightarrow> (exn + ScrapingResult) list \<Rightarrow> ScrapingResult list \<Rightarrow>
    ScrapingResult list" where
  "handle_results urls i [] final_results = final_results"
| "handle_results urls i (result # results) final_results =
     handle_results urls (Suc i) results
       (final_results @ [case result of
                           Inl ex \<Rightarrow> failed (urls ! i) (str_exn ex)
                         | Inr r \<Rightarrow> r])"

text \<open>
  \<^verbatim>\<open>scrape_urls\<close>: \<open>Inl\<close> is the exception raised, \<open>Inr\<close> the list returned; the outer
  \<open>None\<close> is a run that never returns.
\<close>

definition scrape_urls :: "env \<Rightarrow> (nat \<Rightarrow> page_script) \<Rightarrow> nat list \<Rightarrow> string list \<Rightarrow> state \<Rightarrow>
    ((exn + ScrapingResult list) \<times> state) option" where
  "scrape_urls e scripts schedule urls st =
     (if browser st = None then
        Some (Inl (RuntimeError ''Scraper not properly initialized. Use async with statement.''), st)
      else
        (case gather e scripts urls schedule st of
           None \<Rightarrow> None
         | Some (results, st') \<Rightarrow> Some (Inr (handle_results urls 0 results []), st')))"

subsection \<open>Predicates of the specification\<close>

text \<open>
  The error of a result is non-empty: it is set, and not to the empty string.
\<close>

definition error_nonempty :: "ScrapingResult \<Rightarrow> bool" where
  "error_nonempty r = (case error r of None \<Rightarrow> False | Some m \<Rightarrow> m \<noteq> [])"

definition result_ok :: "ScrapingResult \<Rightarrow> bool" where
  "result_ok r = ((error_nonempty r \<longleftrightarrow> \<not> success r) \<and> (\<not> success r \<longrightarrow> units r = []))"

text \<open>
  What a filled slot of \<open>gather\<close> holds: a result for the URL of its position.
\<close>

definition slot_ok :: "string list \<Rightarrow> nat \<Rightarrow> (exn + ScrapingResult) option \<Rightarrow> bool" where
  "slot_ok urls i slot =
     (case slot of None \<Rightarrow> True
      | Some (Inl ex) \<Rightarrow> False
      | Some (Inr r) \<Rightarrow> ScrapingResult.url r = urls ! i \<and> result_ok r)"

text \<open>
  The acceptance test in the words of the specification: a keyed object that contains
  both a \<^verbatim>\<open>size\<close> and a \<^verbatim>\<open>price\<close> key.
\<close>

definition has_size_and_price :: "pyval \<Rightarrow> bool" where
  "has_size_and_price item =
     (case item of PDict kv \<Rightarrow> ''size'' \<in> fst ` set kv \<and> ''price'' \<in> fst ` set kv | _ \<Rightarrow> False)"

subsection \<open>Concrete instances\<close>

text \<open>
  An instance of the library parameters and of the collaborators, used to run the model
  on concrete inputs. \<open>example_loads\<close> gives the value of \<^verbatim>\<open>json.loads\<close> on the texts of
  the examples and rejects every other text; \<open>soup_get_text\<close> is the text of a page
  without markup; \<open>py_repr\<close> renders the scalars. \<open>endpoint_answers\<close> is a generation
  endpoint that returns the given text with status 200, \<open>endpoint_times_out\<close> one whose
  request raises, and \<open>page_loads\<close> a page that loads with status 200 and the given
  content.
\<close>

definition example_loads :: "string \<Rightarrow> pyval option" where
  "example_loads s =
     (if s = ''[{\"size\":\"5x5\",\"price\":\"$50/month\"}]'' then
        Some (PList [PDict [(''size'', PStr ''5x5''), (''price'', PStr ''$50/month'')]])
      else if s = ''[{\"size\":\"\",\"price\":\"\"}]'' then
        Some (PList [PDict [(''size'', PStr []), (''price'', PStr [])]])
      else if s = ''[{\"size\":\"5x5\"}]'' then
        Some (PList [PDict [(''size'', PStr ''5x5'')]])
      else if s = ''[\"n/a\",{\"size\":\" 10x10\",\"price\":\"$150 \",\"raw_price\":\"from $150\"},{\"price\":\"$9\"}]'' then
        Some (PList [PStr ''n/a'',
                     PDict [(''size'', PStr '' 10x10''), (''price'', PStr ''$150 ''),
                            (''raw_price'', PStr ''from $150'')],
                     PDict [(''price'', PStr ''$9'')]])
      else None)"

definition example_env :: env where
  "example_env =
     \<lparr>json_loads = example_loads,
      py_repr = (\<lambda>v. case v of PNone \<Rightarrow> ''None'' | PInt i \<Rightarrow> str_int i
                          | PBool b \<Rightarrow> (if b then ''True'' else ''False'') | PFloat f \<Rightarrow> f
                          | _ \<Rightarrow> []),
      soup_get_text = Inr,
      prompt_head = ''HTML Content from '',
      timeout_is_exception = False\<rparr>"

definition endpoint_answers :: "string \<Rightarrow> string \<Rightarrow> exn + http_response" where
  "endpoint_answers text prompt =
     Inr \<lparr>status = 200, json_body = Inr (PDict [(''response'', PStr text), (''done'', PBool True)])\<rparr>"

definition page_loads :: "string \<Rightarrow> (string \<Rightarrow> exn + http_response) \<Rightarrow> page_script" where
  "page_loads html endpoint =
     \<lparr>new_page = None, set_extra_http_headers = None, goto = Inr (Some 200),
      wait_for_timeout = None, content = Inr html, post = endpoint\<rparr>"

definition endpoint_times_out :: "string \<Rightarrow> exn + http_response" where
  "endpoint_times_out prompt = Inl (LibraryError ''TimeoutError'')"

section \<open>Properties\<close>

subsection \<open>Unfolding the model\<close>

lemmas example_defs = example_env_def example_loads_def endpoint_answers_def page_loads_def
  endpoint_times_out_def
  StorageScraper_init_def aenter_def

lemmas model_defs = scrape_urls_def gather_def scrape_single_url_def scrape_url_def
  scrape_url_try_def open_page_def page_close_def extract_storage_data_def call_ollama_def
  call_ollama_try_def create_extraction_prompt_def clean_html_for_llm_def
  parse_ollama_response_def json_str_def json_match_def make_unit_def py_str_def
  failed_def succeeded_def strip_def is_space_def slice_to_def Let_def

subsection \<open>Parsing and preprocessing\<close>

lemma collect_units_acc:
  "collect_units e u items us = us @ List.map_filter (make_unit e u) items"
  by (induction items arbitrary: us) (auto simp: List.map_filter_simps split: option.splits)

lemma json_match_span:
  assumes "CHR ''['' \<notin> set lead" "CHR '']'' \<notin> set rest"
  shows "json_match (lead @ CHR ''['' # mid @ CHR '']'' # rest) = Some (CHR ''['' # mid @ [CHR '']''])"
proof -
  have a: "dropWhile (\<lambda>c. c \<noteq> CHR ''['') (lead @ CHR ''['' # mid @ CHR '']'' # rest) = CHR ''['' # mid @ CHR '']'' # rest"
    using assms(1) by (auto simp: dropWhile_append3)
  have b: "dropWhile (\<lambda>c. c \<noteq> CHR '']'') (rev rest @ CHR '']'' # rev mid) = CHR '']'' # rev mid"
    using assms(2) by (auto simp: dropWhile_append3)
  show ?thesis
    by (simp add: json_match_def a b split: list.splits)
qed

lemma rev_dropWhile_Nil: "rev (dropWhile P (rev xs)) = [] \<longleftrightarrow> (\<forall>x\<in>set xs. P x)"
  by (simp add: dropWhile_eq_Nil_conv)

lemma json_match_None:
  "json_match response = None \<longleftrightarrow>
     CHR '']'' \<notin> set (tl (dropWhile (\<lambda>c. c \<noteq> CHR ''['') response))"
proof (cases "dropWhile (\<lambda>c. c \<noteq> CHR ''['') response")
  case Nil
  show ?thesis unfolding json_match_def Nil by simp
next
  case (Cons c rest)
  define inner where "inner = rev (dropWhile (\<lambda>c. c \<noteq> CHR '']'') (rev rest))"
  have "(inner = []) = (CHR '']'' \<notin> set rest)"
    unfolding inner_def by (auto simp: rev_dropWhile_Nil)
  moreover have "json_match response = (case inner of [] \<Rightarrow> None | _ \<Rightarrow> Some (CHR ''['' # inner))"
    unfolding json_match_def Cons list.case inner_def[symmetric] by (cases inner) simp_all
  ultimately show ?thesis unfolding Cons
    by (cases inner) simp_all
qed

lemma slice_to_len: "0 \<le> k \<Longrightarrow> length (slice_to s k) \<le> nat k"
  by (simp add: slice_to_def)

lemma clean_html_for_llm_bound: "0 \<le> max_chars \<Longrightarrow> length (clean_html_for_llm e html max_chars) \<le> nat max_chars + 3"
  by (cases "soup_get_text e html") (auto simp add: clean_html_for_llm_def Let_def slice_to_def)

subsection \<open>The pipeline of one URL\<close>

lemma extract_cases:
  "extract_storage_data e ps html u st = (us, st') \<Longrightarrow>
     us = [] \<or> (\<exists>r. us = parse_ollama_response e r u)"
  by (auto simp: extract_storage_data_def call_ollama_def Let_def split: sum.splits option.splits prod.splits if_splits)

lemma scrape_url_try_cases:
  "scrape_url_try e ps u st = (Inr x, st') \<Longrightarrow>
     (\<exists>m. m \<noteq> [] \<and> x = failed u m) \<or> x = succeeded u [] \<or>
     (\<exists>r. x = succeeded u (parse_ollama_response e r u))"
  unfolding scrape_url_try_def Let_def
  by (auto split: option.splits sum.splits if_splits prod.splits dest!: extract_cases)

lemma scrape_url_cases:
  "scrape_url e ps u st = (x, st') \<Longrightarrow>
     (\<exists>m. m \<noteq> [] \<and> x = failed u m) \<or> x = succeeded u [] \<or>
     (\<exists>r. x = succeeded u (parse_ollama_response e r u))"
  unfolding scrape_url_def
  by (auto split: sum.splits prod.splits dest!: scrape_url_try_cases)

lemma scrape_url_url: "ScrapingResult.url (fst (scrape_url e ps u st)) = u"
  using scrape_url_cases[of e ps u st "fst (scrape_url e ps u st)" "snd (scrape_url e ps u st)"]
  by (auto simp: failed_def succeeded_def)

lemma scrape_url_ok: "result_ok (fst (scrape_url e ps u st))"
  using scrape_url_cases[of e ps u st "fst (scrape_url e ps u st)" "snd (scrape_url e ps u st)"]
  by (auto simp: failed_def succeeded_def result_ok_def error_nonempty_def)

subsection \<open>The orchestrator\<close>

lemma nth_update_if: "xs[k := x] ! i = (if i = k \<and> k < length xs then x else xs ! i)"
  by (cases "k < length xs") (auto simp: nth_list_update list_update_beyond)

lemma run_tasks_length:
  "length (fst (run_tasks e scripts urls schedule slots st)) = length slots"
  by (induction schedule arbitrary: slots st) (auto simp: scrape_single_url_def split: prod.splits)

lemma run_tasks_slot_ok:
  "\<forall>i<length slots. slot_ok urls i (slots ! i) \<Longrightarrow>
   \<forall>i<length slots. slot_ok urls i (fst (run_tasks e scripts urls schedule slots st) ! i)"
proof (induction schedule arbitrary: slots st)
  case Nil
  then show ?case by simp
next
  case (Cons k schedule)
  show ?case
  proof (cases "k < length urls")
    case False
    then show ?thesis using Cons by simp
  next
    case True
    obtain r st' where r: "scrape_url e (scripts k) (urls ! k) st = (r, st')"
      by (cases "scrape_url e (scripts k) (urls ! k) st")
    have ok: "slot_ok urls k (Some (Inr r))"
      using scrape_url_url[of e "scripts k" "urls ! k" st] scrape_url_ok[of e "scripts k" "urls ! k" st] r
      by (simp add: slot_ok_def)
    have "\<forall>i<length (slots[k := Some (Inr r)]). slot_ok urls i (slots[k := Some (Inr r)] ! i)"
      using Cons.prems ok by (auto simp: nth_update_if)
    from Cons.IH[OF this, of st'] show ?thesis
      using True r by (simp add: scrape_single_url_def)
  qed
qed

lemma run_tasks_filled:
  "i < length slots \<Longrightarrow> length slots = length urls \<Longrightarrow> i \<in> set schedule \<or> slots ! i \<noteq> None \<Longrightarrow>
   fst (run_tasks e scripts urls schedule slots st) ! i \<noteq> None"
proof (induction schedule arbitrary: slots st)
  case Nil
  then show ?case by simp
next
  case (Cons k schedule)
  show ?case
  proof (cases "k < length urls")
    case False
    then have "i \<noteq> k" using Cons.prems by auto
    then show ?thesis using Cons False by simp
  next
    case True
    obtain r st' where r: "scrape_single_url e (scripts k) (urls ! k) st = (r, st')"
      by (cases "scrape_single_url e (scripts k) (urls ! k) st")
    have "i \<in> set schedule \<or> slots[k := Some r] ! i \<noteq> None"
      using Cons.prems True by (auto simp: nth_update_if)
    with Cons.IH[of "slots[k := Some r]" st'] Cons.prems show ?thesis
      using True r by simp
  qed
qed

lemma handle_results_eq:
  "handle_results urls i results final_results =
     final_results @ map (\<lambda>(k, result). case result of Inl ex \<Rightarrow> failed (urls ! k) (str_exn ex) | Inr r \<Rightarrow> r)
                         (zip [i..<i + length results] results)"
proof (induction results arbitrary: i final_results)
  case Nil
  then show ?case by simp
next
  case (Cons result results)
  have "[i..<i + length (result # results)] = i # [Suc i..<Suc i + length results]"
    using upt_conv_Cons[of i "i + Suc (length results)"] by simp
  then show ?case using Cons.IH[of "Suc i"] by simp
qed

lemma handle_results_length:
  "length (handle_results urls i results final_results) = length final_results + length results"
  by (simp add: handle_results_eq)

lemma handle_results_nth:
  "k < length results \<Longrightarrow>
   handle_results urls 0 results [] ! k =
     (case results ! k of Inl ex \<Rightarrow> failed (urls ! k) (str_exn ex) | Inr r \<Rightarrow> r)"
  by (simp add: handle_results_eq)

lemma gather_Some:
  assumes "set schedule = {..<length urls}"
  shows "\<exists>results st'. gather e scripts urls schedule st = Some (results, st') \<and>
           length results = length urls \<and>
           (\<forall>i<length urls. \<exists>r. results ! i = Inr r \<and> ScrapingResult.url r = urls ! i \<and> result_ok r)"
proof -
  obtain slots st' where run: "run_tasks e scripts urls schedule (replicate (length urls) None) st = (slots, st')"
    by (cases "run_tasks e scripts urls schedule (replicate (length urls) None) st")
  have len: "length slots = length urls"
    using run_tasks_length[of e scripts urls schedule "replicate (length urls) None" st] run by simp
  have filled: "slots ! i \<noteq> None" if "i < length urls" for i
    using run_tasks_filled[of i "replicate (length urls) None" urls schedule e scripts st] that assms run
    by simp
  have ok: "slot_ok urls i (slots ! i)" if "i < length urls" for i
    using run_tasks_slot_ok[of "replicate (length urls) None" urls e scripts schedule st] that run
    by (simp add: slot_ok_def)
  have all: "list_all (\<lambda>slot. slot \<noteq> None) slots"
    using filled len by (simp add: list_all_length)
  have "\<exists>r. map the slots ! i = Inr r \<and> ScrapingResult.url r = urls ! i \<and> result_ok r"
    if "i < length urls" for i
    using ok[OF that] filled[OF that] len that
    by (auto simp: slot_ok_def split: option.splits sum.splits)
  then show ?thesis
    using run all len by (simp add: gather_def)
qed

lemma gather_results_ok:
  assumes "gather e scripts urls schedule st = Some (results, st')"
  shows "length results = length urls \<and>
         (\<forall>i<length urls. \<exists>r. results ! i = Inr r \<and> ScrapingResult.url r = urls ! i \<and> result_ok r)"
proof -
  obtain slots st1 where run: "run_tasks e scripts urls schedule (replicate (length urls) None) st = (slots, st1)"
    by (cases "run_tasks e scripts urls schedule (replicate (length urls) None) st")
  have len: "length slots = length urls"
    using run_tasks_length[of e scripts urls schedule "replicate (length urls) None" st] run by simp
  have all: "list_all (\<lambda>slot. slot \<noteq> None) slots" and res: "results = map the slots"
    using assms run by (auto simp: gather_def split: if_splits)
  have ok: "slot_ok urls i (slots ! i)" if "i < length urls" for i
    using run_tasks_slot_ok[of "replicate (length urls) None" urls e scripts schedule st] that run
    by (simp add: slot_ok_def)
  have "\<exists>r. map the slots ! i = Inr r \<and> ScrapingResult.url r = urls ! i \<and> result_ok r"
    if "i < length urls" for i
    using ok[OF that] all len that
    by (auto simp: slot_ok_def list_all_length split: option.splits sum.splits)
  then show ?thesis using res len by simp
qed

subsection \<open>Pages and prompts of one pipeline\<close>

lemma extract_logs_prompt:
  "prompts_sent (snd (extract_storage_data e ps html u st)) =
     prompts_sent st @ [create_extraction_prompt e html u]"
  by (auto simp: extract_storage_data_def call_ollama_def Let_def split: sum.splits option.splits prod.splits)

lemma scrape_url_try_http_error:
  assumes "browser st = Some b" and "new_page ps = None" and "set_extra_http_headers ps = None"
    and "goto ps = Inr (Some s)" and "400 \<le> s"
  shows "scrape_url_try e ps u st =
           (Inr (failed u (''Failed to load page: HTTP '' @ str_int s)),
            page_close (next_page b) (open_page b st))"
  using assms by (simp add: scrape_url_try_def Let_def)

lemma extract_browser:
  "browser (snd (extract_storage_data e ps html u st)) = browser st"
  by (auto simp: extract_storage_data_def call_ollama_def Let_def split: sum.splits option.splits prod.splits)

lemma scrape_url_try_returns_closed:
  assumes "scrape_url_try e ps u st = (Inr x, st')" and "browser st = Some b"
  shows "next_page b \<notin> set (pages_open st')"
proof -
  have "next_page b \<notin> set (pages_open (page_close (next_page b) (open_page b st)))"
    by (simp add: pages_open_def page_close_def open_page_def)
  moreover have "pages_open (snd (extract_storage_data e ps html u st2)) = pages_open st2" for html st2
    by (simp add: pages_open_def extract_browser)
  ultimately show ?thesis
    using assms unfolding scrape_url_try_def Let_def
    by (auto split: option.splits sum.splits if_splits prod.splits)
       (metis snd_conv)+
qed

lemma scrape_url_exception_leaves_page:
  assumes "browser st = Some b" and "new_page ps = None" and "set_extra_http_headers ps = None"
    and "goto ps = Inl ex"
  shows "next_page b \<in> set (pages_open (snd (scrape_url e ps u st)))"
  using assms
  by (simp add: scrape_url_def scrape_url_try_def Let_def pages_open_def open_page_def)

lemma extract_empty_when_generation_fails:
  assumes "(\<exists>ex. post ps (create_extraction_prompt e html u) = Inl ex) \<or>
     (\<exists>resp. post ps (create_extraction_prompt e html u) = Inr resp \<and> status resp \<noteq> 200) \<or>
     (\<exists>text. call_ollama_try ps (create_extraction_prompt e html u) = Inr (Some text) \<and>
        (\<forall>items. json_loads e (json_str text) \<noteq> Some (PList items)))"
  shows "fst (extract_storage_data e ps html u st) = []"
proof -
  let ?p = "create_extraction_prompt e html u"
  have "call_ollama_try ps ?p = Inr None \<or> (\<exists>ex. call_ollama_try ps ?p = Inl ex) \<or>
        (\<exists>text. call_ollama_try ps ?p = Inr (Some text) \<and> parse_ollama_response e text u = [])"
    using assms
  proof (elim disjE exE conjE)
    fix ex assume "post ps ?p = Inl ex"
    then show ?thesis by (simp add: call_ollama_try_def)
  next
    fix resp assume "post ps ?p = Inr resp" "status resp \<noteq> 200"
    then show ?thesis by (simp add: call_ollama_try_def)
  next
    fix reply
    assume t: "call_ollama_try ps ?p = Inr (Some reply)"
      and n: "\<forall>items. json_loads e (json_str reply) \<noteq> Some (PList items)"
    have "parse_ollama_response e reply u = []"
      using n by (auto simp: parse_ollama_response_def split: option.splits pyval.splits)
    then show ?thesis using t by simp
  qed
  then show ?thesis
    by (auto simp: extract_storage_data_def call_ollama_def Let_def)
qed

subsection \<open>Units and the items they come from\<close>




lemma json_str_span:
  assumes "CHR ''['' \<notin> set lead" and "CHR '']'' \<notin> set rest"
  shows "json_str (lead @ ''['' @ mid @ '']'' @ rest) = ''['' @ mid @ '']''"
  using json_match_span[OF assms, of mid] by (simp add: json_str_def)

lemma json_str_fallback:
  assumes "CHR '']'' \<notin> set (tl (dropWhile (\<lambda>c. c \<noteq> CHR ''['') response))"
  shows "json_str response = strip response"
  using assms by (simp add: json_str_def json_match_None[symmetric])

lemma has_key: "(k \<in> fst ` set kv) = (map_of kv k \<noteq> None)"
  by (simp add: map_of_eq_None_iff)

lemma make_unit_accepts: "(make_unit e u item \<noteq> None) = has_size_and_price item"
proof (cases item)
  case (PDict kv)
  show ?thesis
    unfolding PDict has_size_and_price_def has_key
    by (cases "map_of kv ''size''"; cases "map_of kv ''price''") (simp_all add: make_unit_def)
qed (simp_all add: make_unit_def has_size_and_price_def)

lemma map_filter_eq: "List.map_filter f xs = map (\<lambda>x. the (f x)) (filter (\<lambda>x. f x \<noteq> None) xs)"
  by (induction xs) (auto simp: List.map_filter_simps)

section \<open>Claims\<close>

text \<open>
  C1. On an initialised scraper, for every list of URLs and every order in which the
  per-URL pipelines complete, \<^verbatim>\<open>scrape_urls\<close> returns a list of results as long as the
  input, and the result at position \<open>i\<close> carries the URL at position \<open>i\<close>: none is
  invented, dropped or moved.
\<close>

theorem scrape_urls_keeps_input_order:
  assumes "browser st \<noteq> None" and "distinct schedule" and "set schedule = {..<length urls}"
  shows "\<exists>results st'. scrape_urls e scripts schedule urls st = Some (Inr results, st') \<and>
           length results = length urls \<and>
           (\<forall>i<length urls. ScrapingResult.url (results ! i) = urls ! i)"
proof -
  obtain results st' where g: "gather e scripts urls schedule st = Some (results, st')"
    and len: "length results = length urls"
    and each: "\<forall>i<length urls. \<exists>r. results ! i = Inr r \<and> ScrapingResult.url r = urls ! i \<and> result_ok r"
    using gather_Some[OF assms(3), of e scripts st] by blast
  have "ScrapingResult.url (handle_results urls 0 results [] ! i) = urls ! i" if "i < length urls" for i
    using each that len by (auto simp: handle_results_nth)
  then show ?thesis
    using assms(1) g len by (simp add: scrape_urls_def handle_results_length)
qed

theorem scrape_urls_keeps_input_order_witness:
  "browser (aenter StorageScraper_init) \<noteq> None \<and> distinct [2, 0, 1 :: nat] \<and>
   set [2, 0, 1] = {..<length [''http://a'', ''http://b'', ''http://c'']} \<and>
   (\<exists>results st'.
      scrape_urls example_env
        (\<lambda>i. (page_loads ''5x5 $50'' (endpoint_answers ''[]''))\<lparr>goto := Inr (Some (200 + 101 * int i))\<rparr>)
        [2, 0, 1] [''http://a'', ''http://b'', ''http://c''] (aenter StorageScraper_init) =
        Some (Inr results, st') \<and>
      length results = length [''http://a'', ''http://b'', ''http://c''] \<and>
      (\<forall>i<length [''http://a'', ''http://b'', ''http://c''].
         ScrapingResult.url (results ! i) = [''http://a'', ''http://b'', ''http://c''] ! i))"
proof -
  have a: "browser (aenter StorageScraper_init) \<noteq> None"
    by (simp add: aenter_def)
  have b: "distinct [2, 0, 1 :: nat]"
    by simp
  have c: "set [2, 0, 1] = {..<length [''http://a'', ''http://b'', ''http://c'']}"
    by auto
  show ?thesis
    using a b c scrape_urls_keeps_input_order[OF a b c, of example_env
      "\<lambda>i. (page_loads ''5x5 $50'' (endpoint_answers ''[]''))\<lparr>goto := Inr (Some (200 + 101 * int i))\<rparr>"]
    by blast
qed

text \<open>
  C2. In every result of a run the error is non-empty if and only if \<open>success\<close> is false,
  and the list of units is empty whenever \<open>success\<close> is false.
\<close>

theorem scraping_result_invariant:
  assumes "scrape_urls e scripts schedule urls st = Some (Inr results, st')" and "r \<in> set results"
  shows "(error_nonempty r \<longleftrightarrow> \<not> success r) \<and> (\<not> success r \<longrightarrow> units r = [])"
proof -
  obtain rs where g: "gather e scripts urls schedule st = Some (rs, st')"
    and res: "results = handle_results urls 0 rs []"
    using assms(1) by (auto simp: scrape_urls_def split: if_splits option.splits)
  note ok = gather_results_ok[OF g]
  obtain i where i: "i < length results" "r = results ! i"
    using assms(2) by (auto simp: in_set_conv_nth)
  then have "i < length urls"
    using ok res by (simp add: handle_results_length)
  then have "result_ok r"
    using ok i res by (auto simp: handle_results_nth)
  then show ?thesis by (simp add: result_ok_def)
qed

theorem scraping_result_invariant_witness:
  "scrape_urls example_env
     (\<lambda>i. (page_loads ''5x5 $50'' (endpoint_answers ''[]''))\<lparr>goto := Inr (Some 404)\<rparr>)
     [0] [''http://a''] (aenter StorageScraper_init) =
   Some (Inr [failed ''http://a'' ''Failed to load page: HTTP 404''],
         \<lparr>browser = Some \<lparr>open_pages = [], next_page = 1\<rparr>, prompts_sent = []\<rparr>) \<and>
   failed ''http://a'' ''Failed to load page: HTTP 404'' \<in>
     set [failed ''http://a'' ''Failed to load page: HTTP 404''] \<and>
   error_nonempty (failed ''http://a'' ''Failed to load page: HTTP 404'') \<and>
   \<not> success (failed ''http://a'' ''Failed to load page: HTTP 404'') \<and>
   units (failed ''http://a'' ''Failed to load page: HTTP 404'') = []"
proof -
  have run: "scrape_urls example_env
     (\<lambda>i. (page_loads ''5x5 $50'' (endpoint_answers ''[]''))\<lparr>goto := Inr (Some 404)\<rparr>)
     [0] [''http://a''] (aenter StorageScraper_init) =
   Some (Inr [failed ''http://a'' ''Failed to load page: HTTP 404''],
         \<lparr>browser = Some \<lparr>open_pages = [], next_page = 1\<rparr>, prompts_sent = []\<rparr>)"
    by (simp add: example_defs model_defs str_int_def)
  have mem: "failed ''http://a'' ''Failed to load page: HTTP 404'' \<in>
     set [failed ''http://a'' ''Failed to load page: HTTP 404'']"
    by simp
  have no: "\<not> success (failed ''http://a'' ''Failed to load page: HTTP 404'')"
    by (simp add: failed_def)
  show ?thesis
    using run mem no scraping_result_invariant[OF run mem] by blast
qed




text \<open>
  C4. When the page is fetched (status below 400, content captured) and the call of the
  generation endpoint raises (timeout, transport failure), answers with a status other
  than 200, or returns a text whose payload does not decode to a JSON list, then
  extraction yields the empty list and the result of the page has \<open>success\<close> true, no
  units and no error.
\<close>

theorem extraction_failure_keeps_success:
  assumes "browser st = Some b" and "new_page ps = None" and "set_extra_http_headers ps = None"
    and "goto ps = Inr (Some s)" and "s < 400" and "wait_for_timeout ps = None"
    and "content ps = Inr html"
    and "(\<exists>ex. post ps (create_extraction_prompt e html u) = Inl ex) \<or>
     (\<exists>resp. post ps (create_extraction_prompt e html u) = Inr resp \<and> status resp \<noteq> 200) \<or>
     (\<exists>text. call_ollama_try ps (create_extraction_prompt e html u) = Inr (Some text) \<and>
        (\<forall>items. json_loads e (json_str text) \<noteq> Some (PList items)))"
  shows "fst (extract_storage_data e ps html u st0) = [] \<and>
         fst (scrape_url e ps u st) =
           \<lparr>ScrapingResult.url = u, success = True, units = [], error = None\<rparr>"
proof -
  note empty = extract_empty_when_generation_fails[OF assms(8)]
  have "fst (scrape_url_try e ps u st) = Inr (succeeded u [])"
    using assms(1-7) empty[of "page_close (next_page b) (open_page b st)"]
    by (cases "extract_storage_data e ps html u (page_close (next_page b) (open_page b st))")
       (simp add: scrape_url_try_def Let_def)
  then have "fst (scrape_url e ps u st) = succeeded u []"
    by (cases "scrape_url_try e ps u st") (simp add: scrape_url_def)
  then show ?thesis
    using empty[of st0] by (simp add: succeeded_def)
qed

theorem extraction_failure_keeps_success_witness:
  "browser (aenter StorageScraper_init) = Some \<lparr>open_pages = [], next_page = 0\<rparr> \<and>
   new_page (page_loads ''5x5 $50'' endpoint_times_out) = None \<and>
   set_extra_http_headers (page_loads ''5x5 $50'' endpoint_times_out) = None \<and>
   goto (page_loads ''5x5 $50'' endpoint_times_out) = Inr (Some 200) \<and>
   (200 :: int) < 400 \<and>
   wait_for_timeout (page_loads ''5x5 $50'' endpoint_times_out) = None \<and>
   content (page_loads ''5x5 $50'' endpoint_times_out) = Inr ''5x5 $50'' \<and>
   post (page_loads ''5x5 $50'' endpoint_times_out)
     (create_extraction_prompt example_env ''5x5 $50'' ''http://a'') =
     Inl (LibraryError ''TimeoutError'') \<and>
   fst (extract_storage_data example_env (page_loads ''5x5 $50'' endpoint_times_out)
          ''5x5 $50'' ''http://a'' (aenter StorageScraper_init)) = [] \<and>
   fst (scrape_url example_env (page_loads ''5x5 $50'' endpoint_times_out) ''http://a''
          (aenter StorageScraper_init)) =
     \<lparr>ScrapingResult.url = ''http://a'', success = True, units = [], error = None\<rparr> \<and>
   call_ollama_try (page_loads ''5x5 $50'' (endpoint_answers ''not json at all''))
     (create_extraction_prompt example_env ''5x5 $50'' ''http://a'') =
     Inr (Some ''not json at all'') \<and>
   json_loads example_env (json_str ''not json at all'') = None \<and>
   fst (scrape_url example_env (page_loads ''5x5 $50'' (endpoint_answers ''not json at all''))
          ''http://a'' (aenter StorageScraper_init)) =
     \<lparr>ScrapingResult.url = ''http://a'', success = True, units = [], error = None\<rparr>"
proof -
  let ?P = "page_loads ''5x5 $50'' endpoint_times_out"
  let ?Q = "page_loads ''5x5 $50'' (endpoint_answers ''not json at all'')"
  let ?p = "create_extraction_prompt example_env ''5x5 $50'' ''http://a''"
  let ?st = "aenter StorageScraper_init"
  have b: "browser ?st = Some \<lparr>open_pages = [], next_page = 0\<rparr>"
    by (simp add: aenter_def)
  have P: "new_page ?P = None" "set_extra_http_headers ?P = None" "goto ?P = Inr (Some 200)"
    "(200 :: int) < 400" "wait_for_timeout ?P = None" "content ?P = Inr ''5x5 $50''"
    by (simp_all add: page_loads_def)
  have Q: "new_page ?Q = None" "set_extra_http_headers ?Q = None" "goto ?Q = Inr (Some 200)"
    "(200 :: int) < 400" "wait_for_timeout ?Q = None" "content ?Q = Inr ''5x5 $50''"
    by (simp_all add: page_loads_def)
  have t: "post ?P ?p = Inl (LibraryError ''TimeoutError'')"
    by (simp add: page_loads_def endpoint_times_out_def)
  have g: "call_ollama_try ?Q ?p = Inr (Some ''not json at all'')"
    by (simp add: call_ollama_try_def page_loads_def endpoint_answers_def strip_def is_space_def)
  have n: "json_loads example_env (json_str ''not json at all'') = None"
    by (simp add: example_env_def example_loads_def json_str_def json_match_def strip_def
        is_space_def)
  have fP: "(\<exists>ex. post ?P ?p = Inl ex) \<or>
     (\<exists>resp. post ?P ?p = Inr resp \<and> status resp \<noteq> 200) \<or>
     (\<exists>reply. call_ollama_try ?P ?p = Inr (Some reply) \<and>
        (\<forall>items. json_loads example_env (json_str reply) \<noteq> Some (PList items)))"
    using t by simp
  have fQ: "(\<exists>ex. post ?Q ?p = Inl ex) \<or>
     (\<exists>resp. post ?Q ?p = Inr resp \<and> status resp \<noteq> 200) \<or>
     (\<exists>reply. call_ollama_try ?Q ?p = Inr (Some reply) \<and>
        (\<forall>items. json_loads example_env (json_str reply) \<noteq> Some (PList items)))"
    using g n by simp
  show ?thesis
    using b P t g n
      extraction_failure_keeps_success[OF b P fP, of ?st]
      extraction_failure_keeps_success[OF b Q fQ, of ?st]
    by simp
qed

text \<open>
  C5. The claim (the page opened for a URL is closed on every exit path) does not hold
  of the code: the handler \<^verbatim>\<open>except Exception\<close> of \<^verbatim>\<open>_scrape_url\<close> returns without closing
  the page. When \<^verbatim>\<open>page.goto\<close> raises, the pipeline returns a failed result and page 0 is
  still open.
\<close>

theorem scrape_url_leaves_page_open_when_goto_raises:
  "scrape_url example_env
     ((page_loads ''5x5 $50'' (endpoint_answers ''[]''))\<lparr>goto := Inl (LibraryError ''Timeout 30000ms exceeded.'')\<rparr>)
     ''http://a'' (aenter StorageScraper_init) =
   (\<lparr>ScrapingResult.url = ''http://a'', success = False, units = [],
     error = Some ''Scraping error: Timeout 30000ms exceeded.''\<rparr>,
    \<lparr>browser = Some \<lparr>open_pages = [0], next_page = 1\<rparr>, prompts_sent = []\<rparr>)"
  by (simp add: example_defs model_defs)

text \<open>
  C6. When navigation returns a response with a status of 400 or more, the pipeline
  returns a result with \<open>success\<close> false and the error
  \<^verbatim>\<open>Failed to load page: HTTP <status>\<close>, and no extraction is attempted: no prompt is
  sent, whereas every extraction sends one.
\<close>

theorem http_error_status_fails_without_extraction:
  assumes "browser st = Some b" and "new_page ps = None" and "set_extra_http_headers ps = None"
    and "goto ps = Inr (Some s)" and "400 \<le> s"
  shows "fst (scrape_url e ps u st) =
           \<lparr>ScrapingResult.url = u, success = False, units = [],
            error = Some (''Failed to load page: HTTP '' @ str_int s)\<rparr> \<and>
         prompts_sent (snd (scrape_url e ps u st)) = prompts_sent st \<and>
         prompts_sent (snd (extract_storage_data e ps html u st0)) \<noteq> prompts_sent st0"
  using scrape_url_try_http_error[OF assms, of e u]
  by (simp add: scrape_url_def failed_def page_close_def open_page_def extract_logs_prompt)

theorem http_error_status_fails_without_extraction_witness:
  "browser (aenter StorageScraper_init) = Some \<lparr>open_pages = [], next_page = 0\<rparr> \<and>
   new_page ((page_loads ''Not Found'' (endpoint_answers ''[]''))\<lparr>goto := Inr (Some 404)\<rparr>) = None \<and>
   set_extra_http_headers ((page_loads ''Not Found'' (endpoint_answers ''[]''))\<lparr>goto := Inr (Some 404)\<rparr>) = None \<and>
   goto ((page_loads ''Not Found'' (endpoint_answers ''[]''))\<lparr>goto := Inr (Some 404)\<rparr>) = Inr (Some 404) \<and>
   (400 :: int) \<le> 404 \<and>
   fst (scrape_url example_env ((page_loads ''Not Found'' (endpoint_answers ''[]''))\<lparr>goto := Inr (Some 404)\<rparr>)
          ''http://a'' (aenter StorageScraper_init)) =
     \<lparr>ScrapingResult.url = ''http://a'', success = False, units = [],
      error = Some ''Failed to load page: HTTP 404''\<rparr> \<and>
   prompts_sent (snd (scrape_url example_env
          ((page_loads ''Not Found'' (endpoint_answers ''[]''))\<lparr>goto := Inr (Some 404)\<rparr>)
          ''http://a'' (aenter StorageScraper_init))) = []"
proof -
  have h: "browser (aenter StorageScraper_init) = Some \<lparr>open_pages = [], next_page = 0\<rparr>"
    "new_page ((page_loads ''Not Found'' (endpoint_answers ''[]''))\<lparr>goto := Inr (Some 404)\<rparr>) = None"
    "set_extra_http_headers ((page_loads ''Not Found'' (endpoint_answers ''[]''))\<lparr>goto := Inr (Some 404)\<rparr>) = None"
    "goto ((page_loads ''Not Found'' (endpoint_answers ''[]''))\<lparr>goto := Inr (Some 404)\<rparr>) = Inr (Some 404)"
    "(400 :: int) \<le> 404"
    by (simp_all add: aenter_def page_loads_def)
  have s: "str_int 404 = ''404''"
    by (simp add: str_int_def)
  have p: "prompts_sent (aenter StorageScraper_init) = []"
    by (simp add: aenter_def StorageScraper_init_def)
  show ?thesis
    using h http_error_status_fails_without_extraction[OF h, of example_env "''http://a''"] s p
    by simp
qed

text \<open>
  C7. The payload parsed as JSON is the span from the first \<^verbatim>\<open>[\<close> to the last \<^verbatim>\<open>]\<close> of the
  reply (greedy, across newlines), and the trimmed reply when no \<^verbatim>\<open>]\<close> follows the
  first \<^verbatim>\<open>[\<close>. For the reply \<^verbatim>\<open>Here you go: [{"size":"5x5","price":"$50/month"}] thanks\<close>,
  given the value of \<^verbatim>\<open>json.loads\<close> on the span, parsing yields exactly one unit with size
  \<^verbatim>\<open>5x5\<close> and price \<^verbatim>\<open>$50/month\<close>.
\<close>

theorem parse_ollama_response_bracket_span:
  "(CHR ''['' \<notin> set lead \<and> CHR '']'' \<notin> set rest \<longrightarrow>
      json_str (lead @ ''['' @ mid @ '']'' @ rest) = ''['' @ mid @ '']'') \<and>
   (CHR '']'' \<notin> set (tl (dropWhile (\<lambda>c. c \<noteq> CHR ''['') response)) \<longrightarrow>
      json_str response = strip response) \<and>
   parse_ollama_response e response u =
     (case json_loads e (json_str response) of
        Some (PList items) \<Rightarrow> collect_units e u items []
      | _ \<Rightarrow> []) \<and>
   (json_loads e ''[{\"size\":\"5x5\",\"price\":\"$50/month\"}]'' =
      Some (PList [PDict [(''size'', PStr ''5x5''), (''price'', PStr ''$50/month'')]]) \<longrightarrow>
    parse_ollama_response e
      ''Here you go: [{\"size\":\"5x5\",\"price\":\"$50/month\"}] thanks'' u =
      [\<lparr>StorageUnit.url = u, size = ''5x5'', price = ''$50/month'',
        raw_size = Some ''5x5'', raw_price = Some ''$50/month''\<rparr>])"
proof (intro conjI impI)
  show "json_str (lead @ ''['' @ mid @ '']'' @ rest) = ''['' @ mid @ '']''"
    if "CHR ''['' \<notin> set lead \<and> CHR '']'' \<notin> set rest"
    using that json_str_span by blast
  show "json_str response = strip response"
    if "CHR '']'' \<notin> set (tl (dropWhile (\<lambda>c. c \<noteq> CHR ''['') response))"
    using that by (rule json_str_fallback)
  show "parse_ollama_response e response u =
     (case json_loads e (json_str response) of
        Some (PList items) \<Rightarrow> collect_units e u items []
      | _ \<Rightarrow> [])"
    by (simp add: parse_ollama_response_def split: option.splits pyval.splits)
  have span: "json_str ''Here you go: [{\"size\":\"5x5\",\"price\":\"$50/month\"}] thanks'' =
      ''[{\"size\":\"5x5\",\"price\":\"$50/month\"}]''"
    using json_str_span[of "''Here you go: ''" "'' thanks''" "''{\"size\":\"5x5\",\"price\":\"$50/month\"}''"]
    by simp
  show "parse_ollama_response e
      ''Here you go: [{\"size\":\"5x5\",\"price\":\"$50/month\"}] thanks'' u =
      [\<lparr>StorageUnit.url = u, size = ''5x5'', price = ''$50/month'',
        raw_size = Some ''5x5'', raw_price = Some ''$50/month''\<rparr>]"
    if "json_loads e ''[{\"size\":\"5x5\",\"price\":\"$50/month\"}]'' =
      Some (PList [PDict [(''size'', PStr ''5x5''), (''price'', PStr ''$50/month'')]])"
    using that
    by (simp add: parse_ollama_response_def span make_unit_def py_str_def strip_def is_space_def)
qed

theorem parse_ollama_response_bracket_span_witness:
  "CHR ''['' \<notin> set ''Sure: '' \<and> CHR '']'' \<notin> set '' done'' \<and>
   json_str (''Sure: '' @ ''['' @ ''1, [2], 3'' @ '']'' @ '' done'') = ''['' @ ''1, [2], 3'' @ '']'' \<and>
   CHR '']'' \<notin> set (tl (dropWhile (\<lambda>c. c \<noteq> CHR ''['') '' not json at all '')) \<and>
   json_str '' not json at all '' = ''not json at all'' \<and>
   json_loads example_env ''[{\"size\":\"5x5\",\"price\":\"$50/month\"}]'' =
      Some (PList [PDict [(''size'', PStr ''5x5''), (''price'', PStr ''$50/month'')]]) \<and>
   parse_ollama_response example_env
      ''Here you go: [{\"size\":\"5x5\",\"price\":\"$50/month\"}] thanks'' ''http://a'' =
      [\<lparr>StorageUnit.url = ''http://a'', size = ''5x5'', price = ''$50/month'',
        raw_size = Some ''5x5'', raw_price = Some ''$50/month''\<rparr>]"
proof -
  have a: "CHR ''['' \<notin> set ''Sure: '' \<and> CHR '']'' \<notin> set '' done''"
    by simp
  have b: "CHR '']'' \<notin> set (tl (dropWhile (\<lambda>c. c \<noteq> CHR ''['') '' not json at all ''))"
    by simp
  have c: "json_loads example_env ''[{\"size\":\"5x5\",\"price\":\"$50/month\"}]'' =
      Some (PList [PDict [(''size'', PStr ''5x5''), (''price'', PStr ''$50/month'')]])"
    by (simp add: example_env_def example_loads_def)
  have d: "strip '' not json at all '' = ''not json at all''"
    by (simp add: strip_def is_space_def)
  show ?thesis
    using a b c d
      parse_ollama_response_bracket_span[of "''Sure: ''" "'' done''" "''1, [2], 3''"
        "'' not json at all ''" example_env "''http://a''"]
    by simp
qed

text \<open>
  C8. For a payload that decodes to a list, the units are, in the order of the list, those
  of the elements that are objects with both a \<^verbatim>\<open>size\<close> and a \<^verbatim>\<open>price\<close> key; every other
  element is skipped. An accepted element gives a unit with the page's URL, size and price
  the trimmed string forms of the two values, and \<^verbatim>\<open>raw_size\<close>, \<^verbatim>\<open>raw_price\<close> the string
  forms of the keys of that name, or of size and price when the key is absent.
\<close>

theorem parse_ollama_response_units:
  "(json_loads e (json_str response) = Some (PList items) \<longrightarrow>
      parse_ollama_response e response u =
        map (\<lambda>item. the (make_unit e u item)) (filter has_size_and_price items)) \<and>
   (make_unit e u item \<noteq> None) = has_size_and_price item \<and>
   (map_of kv ''size'' = Some sz \<and> map_of kv ''price'' = Some pr \<longrightarrow>
      make_unit e u (PDict kv) =
        Some \<lparr>StorageUnit.url = u,
              size = strip (py_str e sz),
              price = strip (py_str e pr),
              raw_size = Some (py_str e (case map_of kv ''raw_size'' of None \<Rightarrow> sz | Some v \<Rightarrow> v)),
              raw_price = Some (py_str e (case map_of kv ''raw_price'' of None \<Rightarrow> pr | Some v \<Rightarrow> v))\<rparr>)"
proof (intro conjI impI)
  show "parse_ollama_response e response u =
        map (\<lambda>item. the (make_unit e u item)) (filter has_size_and_price items)"
    if "json_loads e (json_str response) = Some (PList items)"
    using that unfolding parse_ollama_response_def collect_units_acc map_filter_eq make_unit_accepts
    by simp
  show "(make_unit e u item \<noteq> None) = has_size_and_price item"
    by (rule make_unit_accepts)
  show "make_unit e u (PDict kv) =
        Some \<lparr>StorageUnit.url = u,
              size = strip (py_str e sz),
              price = strip (py_str e pr),
              raw_size = Some (py_str e (case map_of kv ''raw_size'' of None \<Rightarrow> sz | Some v \<Rightarrow> v)),
              raw_price = Some (py_str e (case map_of kv ''raw_price'' of None \<Rightarrow> pr | Some v \<Rightarrow> v))\<rparr>"
    if "map_of kv ''size'' = Some sz \<and> map_of kv ''price'' = Some pr"
    using that by (simp add: make_unit_def)
qed

theorem parse_ollama_response_units_witness:
  "json_loads example_env
     (json_str ''[\"n/a\",{\"size\":\" 10x10\",\"price\":\"$150 \",\"raw_price\":\"from $150\"},{\"price\":\"$9\"}]'') =
     Some (PList [PStr ''n/a'',
                  PDict [(''size'', PStr '' 10x10''), (''price'', PStr ''$150 ''),
                         (''raw_price'', PStr ''from $150'')],
                  PDict [(''price'', PStr ''$9'')]]) \<and>
   map_of [(''size'', PStr '' 10x10''), (''price'', PStr ''$150 ''),
           (''raw_price'', PStr ''from $150'')] ''size'' = Some (PStr '' 10x10'') \<and>
   map_of [(''size'', PStr '' 10x10''), (''price'', PStr ''$150 ''),
           (''raw_price'', PStr ''from $150'')] ''price'' = Some (PStr ''$150 '') \<and>
   parse_ollama_response example_env
     ''[\"n/a\",{\"size\":\" 10x10\",\"price\":\"$150 \",\"raw_price\":\"from $150\"},{\"price\":\"$9\"}]''
     ''http://a'' =
     [\<lparr>StorageUnit.url = ''http://a'', size = ''10x10'', price = ''$150'',
       raw_size = Some '' 10x10'', raw_price = Some ''from $150''\<rparr>] \<and>
   \<not> has_size_and_price (PStr ''n/a'') \<and>
   \<not> has_size_and_price (PDict [(''price'', PStr ''$9'')]) \<and>
   make_unit example_env ''http://a'' (PDict [(''price'', PStr ''$9'')]) = None"
proof -
  let ?r = "''[\"n/a\",{\"size\":\" 10x10\",\"price\":\"$150 \",\"raw_price\":\"from $150\"},{\"price\":\"$9\"}]''"
  let ?kv = "[(''size'', PStr '' 10x10''), (''price'', PStr ''$150 ''), (''raw_price'', PStr ''from $150'')]"
  have d: "json_loads example_env (json_str ?r) =
     Some (PList [PStr ''n/a'', PDict ?kv, PDict [(''price'', PStr ''$9'')]])"
    by (simp add: example_env_def example_loads_def json_str_def json_match_def)
  have k: "map_of ?kv ''size'' = Some (PStr '' 10x10'')" "map_of ?kv ''price'' = Some (PStr ''$150 '')"
    by simp_all
  have h: "\<not> has_size_and_price (PStr ''n/a'')" "\<not> has_size_and_price (PDict [(''price'', PStr ''$9'')])"
    "has_size_and_price (PDict ?kv)"
    by (simp_all add: has_size_and_price_def)
  have s: "strip '' 10x10'' = ''10x10''" "strip ''$150 '' = ''$150''"
    by (simp_all add: strip_def is_space_def)
  show ?thesis
    using d k h s
      parse_ollama_response_units[of example_env ?r
        "[PStr ''n/a'', PDict ?kv, PDict [(''price'', PStr ''$9'')]]" "''http://a''"
        "PDict [(''price'', PStr ''$9'')]" ?kv "PStr '' 10x10''" "PStr ''$150 ''"]
    by (simp add: py_str_def)
qed

text \<open>
  C9. For a budget \<open>max_chars\<close> that is not negative the preprocessed text has at most
  \<open>max_chars + 3\<close> characters, on the cleaning path and on the fallback path alike; the
  prompt embeds the text preprocessed with the budget 8000, of at most 8003 characters.
\<close>

theorem clean_html_for_llm_within_budget:
  "(0 \<le> max_chars \<longrightarrow>
      length (clean_html_for_llm e html_content max_chars) \<le> nat max_chars + 3) \<and>
   (\<exists>cleaned_html.
      create_extraction_prompt e html_content u =
        prompt_head e @ u @ [CHR '':'', CHR 0x0A] @ cleaned_html @ [CHR 0x0A] \<and>
      cleaned_html = clean_html_for_llm e html_content 8000 \<and>
      length cleaned_html \<le> 8000 + 3)"
  using clean_html_for_llm_bound[of 8000 e html_content]
  by (simp add: clean_html_for_llm_bound create_extraction_prompt_def Let_def)

theorem clean_html_for_llm_within_budget_witness:
  "(0 :: int) \<le> 5 \<and>
   clean_html_for_llm example_env ''10x10   from $150'' 5 = ''10x10...'' \<and>
   length (clean_html_for_llm example_env ''10x10   from $150'' 5) \<le> nat 5 + 3 \<and>
   clean_html_for_llm (example_env\<lparr>soup_get_text := \<lambda>h. Inl (LibraryError ''parser'')\<rparr>)
     ''<p>10x10</p>'' 5 = ''<p>10'' \<and>
   length (clean_html_for_llm (example_env\<lparr>soup_get_text := \<lambda>h. Inl (LibraryError ''parser'')\<rparr>)
     ''<p>10x10</p>'' 5) \<le> nat 5 + 3"
proof -
  have a: "clean_html_for_llm example_env ''10x10   from $150'' 5 = ''10x10...''"
    by (simp add: clean_html_for_llm_def example_env_def clean_whitespace_def splitlines_def
        split_double_space_def strip_def is_space_def is_linebreak_def slice_to_def Let_def)
  have b: "clean_html_for_llm (example_env\<lparr>soup_get_text := \<lambda>h. Inl (LibraryError ''parser'')\<rparr>)
     ''<p>10x10</p>'' 5 = ''<p>10''"
    by (simp add: clean_html_for_llm_def example_env_def slice_to_def)
  show ?thesis
    using a b
      clean_html_for_llm_within_budget[of 5 example_env "''10x10   from $150''" "''http://a''"]
      clean_html_for_llm_within_budget[of 5
        "example_env\<lparr>soup_get_text := \<lambda>h. Inl (LibraryError ''parser'')\<rparr>" "''<p>10x10</p>''"
        "''http://a''"]
    by simp
qed

text \<open>
  C10. If \<^verbatim>\<open>scrape_urls\<close> is called while the browser handle is still \<^verbatim>\<open>None\<close> (before the
  async context manager was entered), it raises \<^verbatim>\<open>RuntimeError\<close> at once, for every list of
  URLs: no list of results is produced and the state is untouched.
\<close>

theorem scrape_urls_not_initialized:
  "browser st = None \<Longrightarrow>
   scrape_urls e scripts schedule urls st =
     Some (Inl (RuntimeError ''Scraper not properly initialized. Use async with statement.''), st)"
  by (simp add: scrape_urls_def)

theorem scrape_urls_not_initialized_witness:
  "browser StorageScraper_init = None \<and>
   scrape_urls example_env (\<lambda>i. page_loads ''5x5 $50'' (endpoint_answers ''[]'')) [1, 0]
       [''http://a'', ''http://b''] StorageScraper_init =
     Some (Inl (RuntimeError ''Scraper not properly initialized. Use async with statement.''),
           StorageScraper_init)"
  using scrape_urls_not_initialized[of StorageScraper_init example_env
      "\<lambda>i. page_loads ''5x5 $50'' (endpoint_answers ''[]'')" "[1, 0]" "[''http://a'', ''http://b'']"]
  by (simp add: StorageScraper_init_def)

end
